theory Spec2Isabelle
  imports Complex_Main
begin

section \<open>Domain models (models.py)\<close>

text \<open>
  Python strings are modelled as \<open>string\<close>; a character stands for one code point of the
  Latin-1 range and \<open>length\<close> for Python's \<open>len\<close>. The type variable \<open>'d\<close> stands for
  Python's \<open>datetime\<close> values and \<open>'f\<close> for its floats: the exporter only carries such
  values around, it never computes with them.
\<close>

record board_column =
  column_id :: string
  column_title :: string
  column_type :: string

record column_value =
  cv_id :: string
  cv_text :: string
  cv_title :: string
  cv_type :: string
  cv_value :: "string option"

record group =
  group_id :: string
  group_title :: string
  group_color :: "string option"
  group_position :: "string option"

record person =
  person_id :: "int option"
  person_name :: "string option"

datatype 'd item = Item
  (item_id: string)
  (item_name: string)
  (item_group: "group option")
  (item_creator: "person option")
  (created_at: "'d option")
  (updated_at: "'d option")
  (column_values: "column_value list")
  (subitems: "'d item list option")

record 'd board =
  board_id :: string
  board_name :: string
  board_description :: "string option"
  board_state :: "string option"
  board_columns :: "board_column list"
  board_groups :: "group list"
  board_items :: "'d item list"

text \<open>\<open>Item.column_value_by_id\<close>: the first column value with the given id.\<close>

fun column_value_by_id :: "column_value list \<Rightarrow> string \<Rightarrow> column_value option" where
  "column_value_by_id [] cid = None"
| "column_value_by_id (cv # cvs) cid =
     (if cv_id cv = cid then Some cv else column_value_by_id cvs cid)"

definition ordered_columns :: "'d board \<Rightarrow> board_column list" where
  "ordered_columns b = board_columns b"


section \<open>Board retrieval (api.py)\<close>

text \<open>
  \<open>MondayClient.execute\<close> either raises a \<open>RuntimeError\<close> (failing HTTP status, or an
  \<open>errors\<close> payload) or returns the \<open>data\<close> object of the reply. \<open>fetch_board\<close> reads only
  the \<open>boards\<close> list of that object (\<open>.get("boards", [])\<close>, so an absent list is the empty
  one). The remote is a parameter: the reply to the metadata query, and the replies to the
  successive item-page queries, numbered from 0 in the order the client issues them.
  Payloads are typed: an item payload is an \<open>item\<close> that \<open>Item.model_validate\<close>
  accepts, a board payload a \<open>board\<close>.

  Both errors of the source are \<open>RuntimeError\<close>s, told apart by their message.
\<close>

datatype fetch_error =
    NoBoardFound int
  | RequestFailed string

datatype request =
    BoardMetadataQuery "int list"
  | ItemsPageQuery int int "string option" bool

record 'd items_page =
  page_items :: "'d item list option"
  page_cursor :: "string option"

record 'd page_envelope =
  items_page :: "'d items_page option"

record 'd remote =
  metadata_reply :: "int list \<Rightarrow> fetch_error + 'd board list"
  page_reply :: "nat \<Rightarrow> fetch_error + 'd page_envelope list"

datatype warning = NoItemsRetrieved int

record 'd fetch_outcome =
  outcome :: "fetch_error + 'd board"
  requests :: "request list"
  warnings :: "warning list"

text \<open>
  \<open>page_info = boards_payload[0].get("items_page", {})\<close>,
  \<open>page_items = page_info.get("items", []) or []\<close> and \<open>page_info.get("cursor")\<close>.
\<close>

definition envelope_items :: "'d page_envelope \<Rightarrow> 'd item list" where
  "envelope_items env =
     (case items_page env of
        None \<Rightarrow> []
      | Some info \<Rightarrow> (case page_items info of None \<Rightarrow> [] | Some its \<Rightarrow> its))"

definition envelope_cursor :: "'d page_envelope \<Rightarrow> string option" where
  "envelope_cursor env =
     (case items_page env of None \<Rightarrow> None | Some info \<Rightarrow> page_cursor info)"

text \<open>\<open>not cursor\<close>: the cursor is \<open>None\<close> or the empty string.\<close>

definition cursor_falsy :: "string option \<Rightarrow> bool" where
  "cursor_falsy c = (case c of None \<Rightarrow> True | Some s \<Rightarrow> s = [])"

text \<open>
  The \<open>while True\<close> loop of \<open>fetch_board\<close>. \<open>n\<close> counts the item-page queries issued so
  far, \<open>cursor\<close> and \<open>acc\<close> are the loop's variables \<open>cursor\<close> and \<open>items\<close>, \<open>sent\<close> is
  the list of requests sent. The loop has no bound of its own: against a remote that
  keeps returning a cursor it does not return, which is the value \<open>None\<close> here.
\<close>

partial_function (option) items_loop ::
  "(nat \<Rightarrow> fetch_error + 'd page_envelope list) \<Rightarrow> int \<Rightarrow> int \<Rightarrow> bool \<Rightarrow>
   nat \<Rightarrow> string option \<Rightarrow> 'd item list \<Rightarrow> request list \<Rightarrow>
   ((fetch_error + 'd item list) \<times> request list) option"
where
  "items_loop reply bid page_size include_subitems n cursor acc sent =
     (case reply n of
        Inl e \<Rightarrow> Some (Inl e, sent @ [ItemsPageQuery bid page_size cursor include_subitems])
      | Inr boards_payload \<Rightarrow>
          (case boards_payload of
             [] \<Rightarrow> Some (Inr acc, sent @ [ItemsPageQuery bid page_size cursor include_subitems])
           | env # _ \<Rightarrow>
               if cursor_falsy (envelope_cursor env)
               then Some (Inr (acc @ envelope_items env),
                          sent @ [ItemsPageQuery bid page_size cursor include_subitems])
               else items_loop reply bid page_size include_subitems (Suc n)
                      (envelope_cursor env) (acc @ envelope_items env)
                      (sent @ [ItemsPageQuery bid page_size cursor include_subitems])))"

definition fetch_board ::
  "'d remote \<Rightarrow> int \<Rightarrow> int \<Rightarrow> bool \<Rightarrow> 'd fetch_outcome option" where
  "fetch_board remote page_size bid include_subitems =
     (case metadata_reply remote [bid] of
        Inl e \<Rightarrow> Some \<lparr>outcome = Inl e, requests = [BoardMetadataQuery [bid]], warnings = []\<rparr>
      | Inr boards \<Rightarrow>
          (case boards of
             [] \<Rightarrow> Some \<lparr>outcome = Inl (NoBoardFound bid),
                        requests = [BoardMetadataQuery [bid]], warnings = []\<rparr>
           | b # _ \<Rightarrow>
               (case items_loop (page_reply remote) bid page_size include_subitems 0 None []
                       [BoardMetadataQuery [bid]] of
                  None \<Rightarrow> None
                | Some (Inl e, sent) \<Rightarrow> Some \<lparr>outcome = Inl e, requests = sent, warnings = []\<rparr>
                | Some (Inr its, sent) \<Rightarrow>
                    Some \<lparr>outcome = Inr (b\<lparr>board_items := its\<rparr>), requests = sent,
                          warnings = (if its = [] then [NoItemsRetrieved bid] else [])\<rparr>)))"


subsection \<open>Observations on a reply, used to state the pagination properties\<close>

text \<open>
  A reply continues the loop when it carries a board envelope with a non-empty cursor; it
  stops the loop when it carries no board envelope, or an envelope whose cursor is empty
  or absent. A failed request is neither: it aborts the fetch.
\<close>

definition page_continues :: "fetch_error + 'd page_envelope list \<Rightarrow> bool" where
  "page_continues r =
     (case r of Inl _ \<Rightarrow> False | Inr [] \<Rightarrow> False
      | Inr (env # _) \<Rightarrow> \<not> cursor_falsy (envelope_cursor env))"

definition page_stops :: "fetch_error + 'd page_envelope list \<Rightarrow> bool" where
  "page_stops r =
     (case r of Inl _ \<Rightarrow> False | Inr [] \<Rightarrow> True
      | Inr (env # _) \<Rightarrow> cursor_falsy (envelope_cursor env))"

definition reply_items :: "fetch_error + 'd page_envelope list \<Rightarrow> 'd item list" where
  "reply_items r = (case r of Inr (env # _) \<Rightarrow> envelope_items env | _ \<Rightarrow> [])"

definition reply_cursor :: "fetch_error + 'd page_envelope list \<Rightarrow> string option" where
  "reply_cursor r = (case r of Inr (env # _) \<Rightarrow> envelope_cursor env | _ \<Rightarrow> None)"

text \<open>
  The cursors of \<open>k + 1\<close> successive item-page queries starting at reply \<open>n\<close>: the first
  query carries \<open>c\<close>, each later one the cursor of the reply before it.
\<close>

fun sent_cursors ::
  "(nat \<Rightarrow> fetch_error + 'd page_envelope list) \<Rightarrow> nat \<Rightarrow> string option \<Rightarrow> nat \<Rightarrow>
   string option list" where
  "sent_cursors reply n c 0 = [c]"
| "sent_cursors reply n c (Suc k) = c # sent_cursors reply (Suc n) (reply_cursor (reply n)) k"

subsection \<open>Example remotes\<close>

definition i1 :: "nat item" where
  "i1 = Item ''101'' ''first'' None None None None [] None"

definition i2 :: "nat item" where
  "i2 = Item ''102'' ''second'' None None None None [] None"

definition i3 :: "nat item" where
  "i3 = Item ''103'' ''third'' None None None None [] None"

definition q1_plan :: "nat board" where
  "q1_plan = \<lparr>board_id = ''42'', board_name = ''Q1 Plan'', board_description = None,
     board_state = Some ''active'', board_columns = [], board_groups = [], board_items = []\<rparr>"

definition envelope_of :: "'d item list \<Rightarrow> string \<Rightarrow> 'd page_envelope" where
  "envelope_of its c = \<lparr>items_page = Some \<lparr>page_items = Some its, page_cursor = Some c\<rparr>\<rparr>"

text \<open>The pages \<open>[(items=[i1,i2], cursor="c1"), (items=[i3], cursor="")]\<close>; any further
  request fails.\<close>

definition two_pages :: "nat \<Rightarrow> fetch_error + nat page_envelope list" where
  "two_pages n =
     (if n = 0 then Inr [envelope_of [i1, i2] ''c1'']
      else if n = 1 then Inr [envelope_of [i3] []]
      else Inl (RequestFailed ''no such page''))"

definition two_page_remote :: "nat remote" where
  "two_page_remote = \<lparr>metadata_reply = (\<lambda>ids. Inr [q1_plan]), page_reply = two_pages\<rparr>"

definition no_board_remote :: "nat remote" where
  "no_board_remote = \<lparr>metadata_reply = (\<lambda>ids. Inr []), page_reply = two_pages\<rparr>"

text \<open>An empty page with a cursor, then a reply without a board envelope.\<close>

definition empty_pages :: "nat \<Rightarrow> fetch_error + nat page_envelope list" where
  "empty_pages n = (if n = 0 then Inr [envelope_of [] ''c1''] else Inr [])"

definition empty_remote :: "nat remote" where
  "empty_remote = \<lparr>metadata_reply = (\<lambda>ids. Inr [q1_plan]), page_reply = empty_pages\<rparr>"



section \<open>Spreadsheet export (excel.py)\<close>

subsection \<open>External parsers and the exceptions the source catches\<close>

text \<open>
  The exporter calls library functions it does not define: the parsers \<open>json.loads\<close>,
  \<open>dateutil.parser.isoparse\<close>, \<open>dateutil.parser.parse\<close> and \<open>float\<close>, \<open>str\<close> (for the
  display width of a number), and the naming of sheets by \<open>openpyxl\<close>. They are
  parameters, collected in a \<open>library\<close>. A parser either returns a value or raises; the
  source wraps each call in an \<open>except\<close> clause that names the exception classes it
  catches, so the class of a raised exception is part of a parser's result.
  \<open>OtherException\<close> stands for every class no clause of the source names (it carries the
  class name).
\<close>

datatype py_exception = ValueError | TypeError | AttributeError | OtherException string

text \<open>
  The values \<open>json.loads\<close> returns: \<open>None\<close>, \<open>bool\<close>, \<open>int\<close>, \<open>float\<close>, \<open>str\<close>, \<open>list\<close>
  and \<open>dict\<close>. A \<open>dict\<close> is the list of its entries, each key once.
\<close>

datatype 'f json =
    JNull
  | JBool bool
  | JInt int
  | JFloat 'f
  | JStr string
  | JArr "'f json list"
  | JObj "(string \<times> 'f json) list"

record ('f, 'd) library =
  json_loads :: "string \<Rightarrow> py_exception + 'f json"
  isoparse :: "'f json \<Rightarrow> py_exception + 'd"
  date_parse :: "string \<Rightarrow> py_exception + 'd"
  float_of_str :: "string \<Rightarrow> py_exception + 'f"
  str_of_float :: "'f \<Rightarrow> string"
  float_truthy :: "'f \<Rightarrow> bool"
  stored_title :: "string option \<Rightarrow> string list \<Rightarrow> string \<Rightarrow> string"

text \<open>Python's truth value of a decoded JSON value (\<open>if date_part:\<close>).\<close>

definition truthy :: "('f, 'd) library \<Rightarrow> 'f json \<Rightarrow> bool" where
  "truthy lib j =
     (case j of
        JNull \<Rightarrow> False
      | JBool b \<Rightarrow> b
      | JInt i \<Rightarrow> i \<noteq> 0
      | JFloat f \<Rightarrow> float_truthy lib f
      | JStr s \<Rightarrow> s \<noteq> []
      | JArr xs \<Rightarrow> xs \<noteq> []
      | JObj kvs \<Rightarrow> kvs \<noteq> [])"

text \<open>
  \<open>ColumnValue.parsed_value\<close> (models.py): the display text when \<open>value\<close> is \<open>None\<close> or
  empty; otherwise the decoded \<open>value\<close>, or the display text when \<open>json.loads\<close> raises
  \<open>ValueError\<close> or \<open>TypeError\<close>. The display text is a \<open>str\<close>, the same kind of value as a
  decoded JSON string.
\<close>

definition parsed_value :: "('f, 'd) library \<Rightarrow> column_value \<Rightarrow> py_exception + 'f json" where
  "parsed_value lib cv =
     (case cv_value cv of
        None \<Rightarrow> Inr (JStr (cv_text cv))
      | Some v \<Rightarrow>
          if v = [] then Inr (JStr (cv_text cv))
          else (case json_loads lib v of
                  Inr j \<Rightarrow> Inr j
                | Inl e \<Rightarrow>
                    if e = ValueError \<or> e = TypeError then Inr (JStr (cv_text cv))
                    else Inl e))"

subsection \<open>Cell values\<close>

text \<open>
  What a cell holds: a \<open>str\<close>, a \<open>float\<close>, a \<open>bool\<close>, a \<open>datetime\<close>, an \<open>int\<close> (the
  counts of the summary sheet) or \<open>None\<close>.
\<close>

datatype ('f, 'd) cell =
    Text string
  | Number 'f
  | Boolean bool
  | DateTime 'd
  | Integer int
  | Blank

subsection \<open>Rendering a column value\<close>

text \<open>The second half of \<open>_parse_date\<close>: the free-form parse of a non-empty display text.\<close>

definition parse_display_text ::
  "('f, 'd) library \<Rightarrow> column_value \<Rightarrow> py_exception + 'd option" where
  "parse_display_text lib cv =
     (if cv_text cv \<noteq> [] then
        (case date_parse lib (cv_text cv) of
           Inr dt \<Rightarrow> Inr (Some dt)
         | Inl e \<Rightarrow> if e = ValueError \<or> e = TypeError then Inr None else Inl e)
      else Inr None)"

definition parse_date :: "('f, 'd) library \<Rightarrow> column_value \<Rightarrow> py_exception + 'd option" where
  "parse_date lib cv =
     (case parsed_value lib cv of
        Inl e \<Rightarrow> Inl e
      | Inr v \<Rightarrow>
          (case v of
             JObj d \<Rightarrow>
               (case map_of d ''date'' of
                  None \<Rightarrow> parse_display_text lib cv
                | Some date_part \<Rightarrow>
                    if truthy lib date_part then
                      (case isoparse lib date_part of
                         Inr dt \<Rightarrow> Inr (Some dt)
                       | Inl e \<Rightarrow>
                           if e = ValueError \<or> e = TypeError then Inr None else Inl e)
                    else parse_display_text lib cv)
           | _ \<Rightarrow> parse_display_text lib cv))"

text \<open>\<open>text.replace(",", "")\<close> and \<open>text.replace("\n", ", ")\<close>.\<close>

definition remove_commas :: "string \<Rightarrow> string" where
  "remove_commas s = filter (\<lambda>c. c \<noteq> CHR '','') s"

definition newlines_to_commas :: "string \<Rightarrow> string" where
  "newlines_to_commas s = concat (map (\<lambda>c. if c = CHR 0x0A then '', '' else [c]) s)"

text \<open>
  \<open>_render_column_value\<close>: the cell value and the format tag, or the exception that
  escapes.
\<close>

definition render_column_value ::
  "('f, 'd) library \<Rightarrow> board_column \<Rightarrow> column_value option \<Rightarrow>
   py_exception + (('f, 'd) cell \<times> string option)" where
  "render_column_value lib column column_value =
     (case column_value of
        None \<Rightarrow> Inr (Text [], None)
      | Some cv \<Rightarrow>
          if column_type column = ''date'' then
            (case parse_date lib cv of
               Inl e \<Rightarrow> Inl e
             | Inr (Some parsed_date) \<Rightarrow> Inr (DateTime parsed_date, Some ''date'')
             | Inr None \<Rightarrow> Inr (Text (cv_text cv), None))
          else if column_type column = ''numbers'' \<or> column_type column = ''numeric'' then
            (case float_of_str lib (remove_commas (cv_text cv)) of
               Inr f \<Rightarrow> Inr (Number f, None)
             | Inl e \<Rightarrow>
                 if e = ValueError \<or> e = AttributeError then Inr (Text (cv_text cv), None)
                 else Inl e)
          else if column_type column = ''checkbox'' then
            (case parsed_value lib cv of
               Inl e \<Rightarrow> Inl e
             | Inr v \<Rightarrow>
                 (case (case v of JObj d \<Rightarrow> map_of d ''checked'' | _ \<Rightarrow> Some v) of
                    Some (JBool b) \<Rightarrow> Inr (Boolean b, None)
                  | _ \<Rightarrow> Inr (Text (cv_text cv), None)))
          else if column_type column = ''people'' then
            Inr (Text (newlines_to_commas (cv_text cv)), None)
          else Inr (Text (cv_text cv), None))"

subsection \<open>Display width\<close>

text \<open>
  \<open>str.splitlines\<close>: the lines of a text, cut at the line boundaries of the Latin-1 range
  (\<open>\n\<close>, \<open>\r\<close>, \<open>\r\n\<close>, \<open>\v\<close>, \<open>\f\<close>, \<open>\x1c\<close>, \<open>\x1d\<close>, \<open>\x1e\<close>, \<open>\x85\<close>); a boundary
  at the very end opens no further line. \<open>cur\<close> is the line being read.
\<close>

definition line_boundary :: "char \<Rightarrow> bool" where
  "line_boundary c = (c \<in> set [CHR 0x0A, CHR 0x0B, CHR 0x0C, CHR 0x0D, CHR 0x1C, CHR 0x1D,
      CHR 0x1E, CHR 0x85])"

fun splitlines_from :: "string \<Rightarrow> string \<Rightarrow> string list" where
  "splitlines_from cur [] = (if cur = [] then [] else [cur])"
| "splitlines_from cur [c] =
     (if line_boundary c then [cur] else [cur @ [c]])"
| "splitlines_from cur (c # d # cs) =
     (if c = CHR 0x0D \<and> d = CHR 0x0A then cur # splitlines_from [] cs
      else if line_boundary c then cur # splitlines_from [] (d # cs)
      else splitlines_from (cur @ [c]) (d # cs))"

definition splitlines :: "string \<Rightarrow> string list" where
  "splitlines s = splitlines_from [] s"

text \<open>\<open>str\<close> of an \<open>int\<close> and of a \<open>bool\<close>.\<close>

function str_of_nat :: "nat \<Rightarrow> string" where
  "str_of_nat n =
     (if n < 10 then [''0123456789'' ! n]
      else str_of_nat (n div 10) @ [''0123456789'' ! (n mod 10)])"
  by pat_completeness auto
termination
  by (relation "measure id") auto

declare str_of_nat.simps [simp del]

definition str_of_int :: "int \<Rightarrow> string" where
  "str_of_int i = (if i < 0 then CHR ''-'' # str_of_nat (nat (- i)) else str_of_nat (nat i))"

definition str_of_bool :: "bool \<Rightarrow> string" where
  "str_of_bool b = (if b then ''True'' else ''False'')"

definition text_width :: "string \<Rightarrow> nat" where
  "text_width s = fold max (map length (splitlines s)) 0 + 2"

definition calculate_display_width :: "('f, 'd) library \<Rightarrow> ('f, 'd) cell \<Rightarrow> nat" where
  "calculate_display_width lib v =
     (case v of
        Blank \<Rightarrow> 0
      | DateTime _ \<Rightarrow> 22
      | Text s \<Rightarrow> text_width s
      | Number f \<Rightarrow> text_width (str_of_float lib f)
      | Boolean b \<Rightarrow> text_width (str_of_bool b)
      | Integer i \<Rightarrow> text_width (str_of_int i))"

subsection \<open>Sheet title\<close>

text \<open>
  \<open>re.sub(r"[\\/*?:\\[\\]]", "_", title)\<close>. In the raw string every \<open>\\\<close> is an escaped
  backslash, so the pattern is the character class of backslash, \<open>/\<close>, \<open>*\<close>, \<open>?\<close>, \<open>:\<close>
  and \<open>[\<close>, closed by the first \<open>]\<close>, followed by one literal \<open>]\<close>: it matches two
  characters, one of the class and then \<open>]\<close>. \<open>re.sub\<close> replaces the leftmost matches, one
  after the other, without overlap.
\<close>

definition pattern_class :: "char list" where
  "pattern_class = [CHR 0x5C, CHR ''/'', CHR ''*'', CHR ''?'', CHR '':'', CHR ''['']"

fun sub_pattern :: "string \<Rightarrow> string" where
  "sub_pattern (c # d # cs) =
     (if c \<in> set pattern_class \<and> d = CHR '']'' then CHR ''_'' # sub_pattern cs
      else c # sub_pattern (d # cs))"
| "sub_pattern cs = cs"

definition sanitize_sheet_title :: "string \<Rightarrow> string" where
  "sanitize_sheet_title title = take 31 (sub_pattern title)"

subsection \<open>Sheets and the workbook\<close>

text \<open>
  A sheet is its title, its rows of cell values and the widths of its columns (column
  \<open>A\<close> first). Fonts, fills, borders, alignments, number formats, the frozen pane and the
  auto-filter are set by the source and read by nothing below; they are left out.
\<close>

record ('f, 'd) sheet =
  sheet_title :: string
  sheet_rows :: "('f, 'd) cell list list"
  column_widths :: "nat list"

record ('f, 'd) workbook =
  worksheets :: "('f, 'd) sheet list"
  active :: nat

text \<open>
  \<open>_build_item_row\<close>. The loop over the board's columns appends one rendered value per
  column and records its format tag under the index the value gets.
\<close>

fun render_columns ::
  "('f, 'd) library \<Rightarrow> 'd item \<Rightarrow> ('f, 'd) cell list \<Rightarrow> (nat \<rightharpoonup> string) \<Rightarrow>
   board_column list \<Rightarrow> py_exception + (('f, 'd) cell list \<times> (nat \<rightharpoonup> string))" where
  "render_columns lib item row column_formats [] = Inr (row, column_formats)"
| "render_columns lib item row column_formats (column # columns) =
     (case render_column_value lib column
             (column_value_by_id (column_values item) (column_id column)) of
        Inl e \<Rightarrow> Inl e
      | Inr (v, format_tag) \<Rightarrow>
          render_columns lib item (row @ [v])
            (case format_tag of
               None \<Rightarrow> column_formats
             | Some t \<Rightarrow> if t = [] then column_formats else column_formats(length row \<mapsto> t))
            columns)"

definition text_or_empty :: "string option \<Rightarrow> ('f, 'd) cell" where
  "text_or_empty s = (case s of None \<Rightarrow> Text [] | Some t \<Rightarrow> Text t)"

definition datetime_or_empty :: "'d option \<Rightarrow> ('f, 'd) cell" where
  "datetime_or_empty d = (case d of None \<Rightarrow> Text [] | Some dt \<Rightarrow> DateTime dt)"

definition fixed_cells :: "'d item \<Rightarrow> ('f, 'd) cell list" where
  "fixed_cells item =
     [Text (item_id item),
      Text (item_name item),
      (case item_group item of None \<Rightarrow> Text [] | Some g \<Rightarrow> Text (group_title g)),
      (case item_group item of None \<Rightarrow> Text [] | Some g \<Rightarrow> text_or_empty (group_color g)),
      (case item_creator item of None \<Rightarrow> Text [] | Some p \<Rightarrow> text_or_empty (person_name p)),
      datetime_or_empty (created_at item),
      datetime_or_empty (updated_at item)]"

definition fixed_formats :: "'d item \<Rightarrow> (nat \<rightharpoonup> string)" where
  "fixed_formats item =
     (let f5 = (case created_at item of None \<Rightarrow> Map.empty | Some _ \<Rightarrow> [5 \<mapsto> ''date''])
      in case updated_at item of None \<Rightarrow> f5 | Some _ \<Rightarrow> f5(6 \<mapsto> ''date''))"

definition build_item_row ::
  "('f, 'd) library \<Rightarrow> 'd item \<Rightarrow> board_column list \<Rightarrow>
   py_exception + (('f, 'd) cell list \<times> (nat \<rightharpoonup> string))" where
  "build_item_row lib item columns =
     render_columns lib item (fixed_cells item) (fixed_formats item) columns"

text \<open>
  The header row of the items sheet and the widths its loop assigns:
  \<open>max(len(cell.value or ""), 12)\<close>.
\<close>

definition headers :: "board_column list \<Rightarrow> string list" where
  "headers columns =
     [''Item ID'', ''Item Name'', ''Group'', ''Group Color'', ''Creator'', ''Created At'',
      ''Updated At''] @ map column_title columns"

definition header_widths :: "string list \<Rightarrow> nat list" where
  "header_widths hs = map (\<lambda>h. max (length h) 12) hs"

text \<open>
  The loop over the cells of an appended row, \<open>idx\<close> counting from 0:
  \<open>previous_width = width or 10\<close>, and the width becomes \<open>min(display_length, 48)\<close> when
  \<open>display_length > previous_width\<close>. Every row has as many cells as the header row, so
  \<open>idx\<close> stays within the widths the header loop has set.
\<close>

definition widen :: "nat \<Rightarrow> nat \<Rightarrow> nat" where
  "widen width display_length =
     (let previous_width = (if width = 0 then 10 else width)
      in if display_length > previous_width then min display_length 48 else width)"

fun widen_columns ::
  "('f, 'd) library \<Rightarrow> nat list \<Rightarrow> nat \<Rightarrow> ('f, 'd) cell list \<Rightarrow> nat list" where
  "widen_columns lib widths idx [] = widths"
| "widen_columns lib widths idx (c # cs) =
     widen_columns lib
       (widths[idx := widen (widths ! idx) (calculate_display_width lib c)]) (Suc idx) cs"

definition append_row ::
  "('f, 'd) library \<Rightarrow> ('f, 'd) sheet \<Rightarrow> ('f, 'd) cell list \<Rightarrow> ('f, 'd) sheet" where
  "append_row lib sheet row_values =
     sheet\<lparr>sheet_rows := sheet_rows sheet @ [row_values],
           column_widths := widen_columns lib (column_widths sheet) 0 row_values\<rparr>"

text \<open>The loop \<open>for item in board.items\<close> of \<open>_populate_items_sheet\<close>.\<close>

fun append_items ::
  "('f, 'd) library \<Rightarrow> board_column list \<Rightarrow> ('f, 'd) sheet \<Rightarrow> 'd item list \<Rightarrow>
   py_exception + ('f, 'd) sheet" where
  "append_items lib columns sheet [] = Inr sheet"
| "append_items lib columns sheet (item # items) =
     (case build_item_row lib item columns of
        Inl e \<Rightarrow> Inl e
      | Inr (row_values, column_formats) \<Rightarrow>
          append_items lib columns (append_row lib sheet row_values) items)"

definition populate_items_sheet ::
  "('f, 'd) library \<Rightarrow> ('f, 'd) sheet \<Rightarrow> 'd board \<Rightarrow> py_exception + ('f, 'd) sheet" where
  "populate_items_sheet lib sheet board =
     (let columns = ordered_columns board;
          hs = headers columns
      in append_items lib columns
           (sheet\<lparr>sheet_rows := sheet_rows sheet @ [map Text hs],
                  column_widths := header_widths hs\<rparr>)
           (board_items board))"

text \<open>\<open>_populate_summary_sheet\<close>; \<open>now\<close> is the value of \<open>datetime.now(timezone.utc)\<close>.\<close>

definition populate_summary_sheet ::
  "'d \<Rightarrow> ('f, 'd) sheet \<Rightarrow> 'd board \<Rightarrow> ('f, 'd) sheet" where
  "populate_summary_sheet now sheet board =
     sheet\<lparr>sheet_rows := sheet_rows sheet @
             [[Text ''Property'', Text ''Value''],
              [Text ''Board Name'', Text (board_name board)],
              [Text ''Board ID'', Text (board_id board)],
              [Text ''Item Count'', Integer (int (length (board_items board)))],
              [Text ''Group Count'', Integer (int (length (board_groups board)))],
              [Text ''Column Count'', Integer (int (length (board_columns board)))]] @
             (case board_description board of
                None \<Rightarrow> []
              | Some d \<Rightarrow> if d = [] then [] else [[Text ''Description'', Text d]]) @
             [[Text ''Exported At'', DateTime now]],
           column_widths := [18, 60]\<rparr>"

text \<open>
  Assigning a title to a sheet goes through the title setter of \<open>openpyxl\<close>. The setter
  raises \<open>ValueError\<close> when the title holds one of the characters backslash, \<open>*\<close>, \<open>?\<close>,
  \<open>:\<close>, \<open>/\<close>, \<open>[\<close>, \<open>]\<close>; otherwise it stores the title its duplicate-name avoidance
  chooses, which is the library's \<open>stored_title\<close>: a function of the sheet's title so far
  (\<open>None\<close> for a sheet being created), of the names of the workbook's sheets, and of the
  title asked for.
\<close>

definition invalid_title_chars :: "char list" where
  "invalid_title_chars =
     [CHR 0x5C, CHR ''*'', CHR ''?'', CHR '':'', CHR ''/'', CHR ''['', CHR '']'']"

definition title_setter ::
  "('f, 'd) library \<Rightarrow> string option \<Rightarrow> string list \<Rightarrow> string \<Rightarrow> py_exception + string" where
  "title_setter lib current names title =
     (if \<exists>c\<in>set title. c \<in> set invalid_title_chars then Inl ValueError
      else Inr (stored_title lib current names title))"

text \<open>
  \<open>build_workbook\<close>. \<open>Workbook()\<close> comes with one sheet, titled \<open>Sheet\<close>; the source
  retitles it \<open>_sanitize_sheet_title(board.name) or "Board"\<close>, creates the sheet asked to
  be \<open>Summary\<close>, fills both, and makes the items sheet the active one.
\<close>

definition items_sheet_title :: "'d board \<Rightarrow> string" where
  "items_sheet_title board =
     (if sanitize_sheet_title (board_name board) = [] then ''Board''
      else sanitize_sheet_title (board_name board))"

definition build_workbook ::
  "('f, 'd) library \<Rightarrow> 'd \<Rightarrow> 'd board \<Rightarrow> py_exception + ('f, 'd) workbook" where
  "build_workbook lib now board =
     (case title_setter lib (Some ''Sheet'') [''Sheet''] (items_sheet_title board) of
        Inl e \<Rightarrow> Inl e
      | Inr items_title \<Rightarrow>
          (case title_setter lib None [items_title] ''Summary'' of
             Inl e \<Rightarrow> Inl e
           | Inr summary_title \<Rightarrow>
               (case populate_items_sheet lib
                       \<lparr>sheet_title = items_title, sheet_rows = [], column_widths = []\<rparr>
                       board of
                  Inl e \<Rightarrow> Inl e
                | Inr filled \<Rightarrow>
                    Inr \<lparr>worksheets =
                           [filled,
                            populate_summary_sheet now
                              \<lparr>sheet_title = summary_title, sheet_rows = [],
                               column_widths = []\<rparr> board],
                         active = 0\<rparr>)))"



section \<open>Observations and examples for the spreadsheet export\<close>


text \<open>The value a summary sheet shows beside a label.\<close>

fun summary_value :: "('f, 'd) cell list list \<Rightarrow> string \<Rightarrow> ('f, 'd) cell option" where
  "summary_value [] label = None"
| "summary_value (row # rows) label =
     (case row of
        [Text k, v] \<Rightarrow> if k = label then Some v else summary_value rows label
      | _ \<Rightarrow> summary_value rows label)"

text \<open>
  For the widths of the items sheet: the rows a sheet has gained since an earlier state,
  the display widths of the cells of column \<open>i\<close> in a list of rows, and the width a
  column reaches from \<open>w\<close> when cells of these display widths are processed one after
  the other: a cell wider than the width so far (a width of 0 counting as 10) sets the
  width to its display width, at most 48.
\<close>

definition rows_since :: "('f, 'd) sheet \<Rightarrow> ('f, 'd) sheet \<Rightarrow> ('f, 'd) cell list list" where
  "rows_since sheet sheet' = drop (length (sheet_rows sheet)) (sheet_rows sheet')"

definition display_widths ::
  "('f, 'd) library \<Rightarrow> nat \<Rightarrow> ('f, 'd) cell list list \<Rightarrow> nat list" where
  "display_widths lib i rows = map (\<lambda>row. calculate_display_width lib (row ! i)) rows"

fun widen_by :: "nat \<Rightarrow> nat list \<Rightarrow> nat" where
  "widen_by w [] = w"
| "widen_by w (d # ds) =
     widen_by (if (if w = 0 then 10 else w) < d then min d 48 else w) ds"

subsection \<open>An example library\<close>

text \<open>
  A library that knows a handful of inputs, with the results the real parsers give on
  them; datetimes are written as numbers (\<open>20240115\<close> for 2024-01-15 00:00), floats as
  rationals.
\<close>

definition quoted :: "string \<Rightarrow> string" where
  "quoted s = CHR 0x22 # s @ [CHR 0x22]"

definition date_payload :: string where
  "date_payload = ''{'' @ quoted ''date'' @ '': '' @ quoted ''2024-01-15'' @ ''}''"

definition odd_date_payload :: string where
  "odd_date_payload = ''{'' @ quoted ''date'' @ '': '' @ quoted ''tomorrow'' @ ''}''"

definition checked_payload :: string where
  "checked_payload = ''{'' @ quoted ''checked'' @ '': true}''"

definition example_json_loads :: "string \<Rightarrow> py_exception + rat json" where
  "example_json_loads s =
     (if s = date_payload then Inr (JObj [(''date'', JStr ''2024-01-15'')])
      else if s = odd_date_payload then Inr (JObj [(''date'', JStr ''tomorrow'')])
      else if s = checked_payload then Inr (JObj [(''checked'', JBool True)])
      else if s = ''false'' then Inr (JBool False)
      else Inl ValueError)"

definition example_isoparse :: "rat json \<Rightarrow> py_exception + nat" where
  "example_isoparse j =
     (case j of
        JStr s \<Rightarrow> if s = ''2024-01-15'' then Inr 20240115 else Inl ValueError
      | _ \<Rightarrow> Inl TypeError)"

definition example_date_parse :: "string \<Rightarrow> py_exception + nat" where
  "example_date_parse s = (if s = ''2024-01-15'' then Inr 20240115 else Inl ValueError)"

definition example_float_of_str :: "string \<Rightarrow> py_exception + rat" where
  "example_float_of_str s = (if s = ''1234.50'' then Inr (2469 / 2) else Inl ValueError)"

definition example_str_of_float :: "rat \<Rightarrow> string" where
  "example_str_of_float f = (if f = 2469 / 2 then ''1234.5'' else ''0.0'')"

text \<open>A sheet asked to take the name of another sheet gets the name with \<open>1\<close> appended.\<close>

definition example_stored_title :: "string option \<Rightarrow> string list \<Rightarrow> string \<Rightarrow> string" where
  "example_stored_title current names title =
     (if current \<noteq> Some title \<and> title \<in> set names then title @ ''1'' else title)"

definition example_library :: "(rat, nat) library" where
  "example_library =
     \<lparr>json_loads = example_json_loads, isoparse = example_isoparse,
      date_parse = example_date_parse, float_of_str = example_float_of_str,
      str_of_float = example_str_of_float, float_truthy = (\<lambda>f. f \<noteq> 0),
      stored_title = example_stored_title\<rparr>"

text \<open>
  Two exceptions of the real parsers that no clause of the source names.
  \<open>dateutil.parser.parse\<close> documents \<open>OverflowError\<close> for a date beyond the largest C
  integer; a year of eleven digits is such a date. \<open>json.loads\<close> raises \<open>RecursionError\<close>
  on a text nested deeper than the interpreter's recursion limit.
\<close>

definition deep_payload :: string where
  "deep_payload = replicate 100000 (CHR ''['')"

definition raising_date_parse :: "string \<Rightarrow> py_exception + nat" where
  "raising_date_parse s =
     (if s = ''99999999999'' then Inl (OtherException ''OverflowError'')
      else example_date_parse s)"

definition raising_json_loads :: "string \<Rightarrow> py_exception + rat json" where
  "raising_json_loads s =
     (if s = deep_payload then Inl (OtherException ''RecursionError'')
      else example_json_loads s)"

definition raising_library :: "(rat, nat) library" where
  "raising_library =
     example_library\<lparr>json_loads := raising_json_loads, date_parse := raising_date_parse\<rparr>"

subsection \<open>Example columns, column values and boards\<close>

definition column_of_type :: "string \<Rightarrow> board_column" where
  "column_of_type t = \<lparr>column_id = ''c1'', column_title = ''Column'', column_type = t\<rparr>"

definition value_of :: "string \<Rightarrow> string option \<Rightarrow> column_value" where
  "value_of t v = \<lparr>cv_id = ''c1'', cv_text = t, cv_title = ''Column'', cv_type = ''any'',
     cv_value = v\<rparr>"

definition long_title :: string where
  "long_title = replicate 60 (CHR ''h'')"

definition long_text :: string where
  "long_text = replicate 70 (CHR ''x'')"

definition wide_column :: board_column where
  "wide_column = \<lparr>column_id = ''c1'', column_title = long_title, column_type = ''text''\<rparr>"

definition wide_item :: "nat item" where
  "wide_item = Item ''101'' ''first'' None None None None [value_of long_text None] None"

definition wide_board :: "nat board" where
  "wide_board = \<lparr>board_id = ''42'', board_name = ''Q1 Plan'', board_description = None,
     board_state = None, board_columns = [wide_column], board_groups = [],
     board_items = [wide_item]\<rparr>"

definition blank_sheet :: "(rat, nat) sheet" where
  "blank_sheet = \<lparr>sheet_title = ''Q1 Plan'', sheet_rows = [], column_widths = []\<rparr>"



section \<open>Properties of the board retrieval\<close>

lemma items_loop_stop_step:
  "page_stops (reply n) \<Longrightarrow>
   items_loop reply bid ps inc n c acc sent =
     Some (Inr (acc @ reply_items (reply n)), sent @ [ItemsPageQuery bid ps c inc])"
  by (subst items_loop.simps)
     (auto simp: page_stops_def reply_items_def split: sum.splits list.splits)

lemma items_loop_continue_step:
  "page_continues (reply n) \<Longrightarrow>
   items_loop reply bid ps inc n c acc sent =
     items_loop reply bid ps inc (Suc n) (reply_cursor (reply n)) (acc @ reply_items (reply n))
       (sent @ [ItemsPageQuery bid ps c inc])"
  by (subst items_loop.simps)
     (auto simp: page_continues_def reply_items_def reply_cursor_def
           split: sum.splits list.splits)

text \<open>
  The loop started at reply \<open>n\<close>, when the replies \<open>n, \<dots>, n + k - 1\<close> continue and reply
  \<open>n + k\<close> stops: it returns after exactly \<open>k + 1\<close> queries, with the items of these
  replies appended to the accumulator in the order received.
\<close>

lemma items_loop_pages:
  assumes "\<forall>i<k. page_continues (reply (n + i))" and "page_stops (reply (n + k))"
  shows "items_loop reply bid ps inc n c acc sent =
     Some (Inr (acc @ concat (map (\<lambda>i. reply_items (reply i)) [n..<n + Suc k])),
           sent @ map (\<lambda>c'. ItemsPageQuery bid ps c' inc) (sent_cursors reply n c k))"
  using assms
proof (induction k arbitrary: n c acc sent)
  case 0
  then show ?case by (simp add: items_loop_stop_step)
next
  case (Suc k)
  from Suc.prems(1) have c0: "page_continues (reply n)"
    by (metis add.right_neutral zero_less_Suc)
  have rest: "\<forall>i<k. page_continues (reply (Suc n + i))"
    using Suc.prems(1) by (metis add_Suc_shift Suc_less_eq)
  have stop: "page_stops (reply (Suc n + k))"
    using Suc.prems(2) by simp
  have up: "[n..<n + Suc (Suc k)] = n # [Suc n..<Suc n + Suc k]"
    by (simp add: upt_conv_Cons)
  have step: "items_loop reply bid ps inc n c acc sent =
     items_loop reply bid ps inc (Suc n) (reply_cursor (reply n)) (acc @ reply_items (reply n))
       (sent @ [ItemsPageQuery bid ps c inc])"
    using c0 by (rule items_loop_continue_step)
  show ?case
    unfolding step Suc.IH[OF rest stop] up by simp
qed

lemma length_sent_cursors: "length (sent_cursors reply n c k) = Suc k"
  by (induction k arbitrary: n c) simp_all

text \<open>
  Conversely the loop returns only if some reply does not continue it: against replies
  that all continue, it never returns.
\<close>

lemma items_loop_returns_at_stop:
  assumes "items_loop reply bid ps inc n c acc sent = Some res"
  shows "\<exists>k. (\<forall>i<k. page_continues (reply (n + i))) \<and> \<not> page_continues (reply (n + k))"
proof (rule items_loop.raw_induct[where P = "\<lambda>reply bid ps inc n c acc sent res.
     \<exists>k. (\<forall>i<k. page_continues (reply (n + i))) \<and> \<not> page_continues (reply (n + k))",
     OF _ assms])
  fix loop :: "(nat \<Rightarrow> fetch_error + 'a page_envelope list) \<Rightarrow> int \<Rightarrow> int \<Rightarrow> bool \<Rightarrow>
   nat \<Rightarrow> string option \<Rightarrow> 'a item list \<Rightarrow> request list \<Rightarrow>
   ((fetch_error + 'a item list) \<times> request list) option"
  fix reply bid ps inc n c acc sent res
  assume IH: "\<And>reply bid ps inc n c acc sent res.
     loop reply bid ps inc n c acc sent = Some res \<Longrightarrow>
     \<exists>k. (\<forall>i<k. page_continues (reply (n + i))) \<and> \<not> page_continues (reply (n + k))"
  assume body: "(case reply n of
        Inl e \<Rightarrow> Some (Inl e, sent @ [ItemsPageQuery bid ps c inc])
      | Inr [] \<Rightarrow> Some (Inr acc, sent @ [ItemsPageQuery bid ps c inc])
      | Inr (env # x) \<Rightarrow>
               if cursor_falsy (envelope_cursor env)
               then Some (Inr (acc @ envelope_items env),
                          sent @ [ItemsPageQuery bid ps c inc])
               else loop reply bid ps inc (Suc n)
                      (envelope_cursor env) (acc @ envelope_items env)
                      (sent @ [ItemsPageQuery bid ps c inc])) = Some res"
  show "\<exists>k. (\<forall>i<k. page_continues (reply (n + i))) \<and> \<not> page_continues (reply (n + k))"
  proof (cases "page_continues (reply n)")
    case False
    then have "(\<forall>i<0::nat. page_continues (reply (n + i))) \<and>
        \<not> page_continues (reply (n + 0))"
      by simp
    then show ?thesis by blast
  next
    case True
    then obtain env rest where r: "reply n = Inr (env # rest)"
      and nf: "\<not> cursor_falsy (envelope_cursor env)"
      by (auto simp: page_continues_def split: sum.splits list.splits)
    from body have "loop reply bid ps inc (Suc n) (envelope_cursor env)
        (acc @ envelope_items env) (sent @ [ItemsPageQuery bid ps c inc]) = Some res"
      by (simp add: r nf)
    from IH[OF this] obtain k where
      k: "\<forall>i<k. page_continues (reply (Suc n + i))" "\<not> page_continues (reply (Suc n + k))"
      by blast
    have "\<forall>i<Suc k. page_continues (reply (n + i))"
    proof (intro allI impI)
      fix i assume "i < Suc k"
      show "page_continues (reply (n + i))"
      proof (cases i)
        case 0 with True show ?thesis by simp
      next
        case (Suc j)
        with \<open>i < Suc k\<close> k(1) show ?thesis by simp
      qed
    qed
    moreover have "\<not> page_continues (reply (n + Suc k))" using k(2) by simp
    ultimately show ?thesis by blast
  qed
qed

text \<open>
  The run of \<open>fetch_board\<close> against a remote that has the board, whose item-page replies
  \<open>0, \<dots>, k - 1\<close> continue and whose reply \<open>k\<close> stops.
\<close>

lemma fetch_board_pages:
  assumes "metadata_reply remote [bid] = Inr (b # bs)"
    and "\<forall>i<k. page_continues (page_reply remote i)"
    and "page_stops (page_reply remote k)"
  shows "fetch_board remote page_size bid inc =
     Some \<lparr>outcome = Inr (b\<lparr>board_items :=
              concat (map (\<lambda>i. reply_items (page_reply remote i)) [0..<Suc k])\<rparr>),
           requests = BoardMetadataQuery [bid] #
              map (\<lambda>c. ItemsPageQuery bid page_size c inc)
                (sent_cursors (page_reply remote) 0 None k),
           warnings =
             (if concat (map (\<lambda>i. reply_items (page_reply remote i)) [0..<Suc k]) = []
              then [NoItemsRetrieved bid] else [])\<rparr>"
proof -
  have "items_loop (page_reply remote) bid page_size inc 0 None [] [BoardMetadataQuery [bid]] =
     Some (Inr ([] @ concat (map (\<lambda>i. reply_items (page_reply remote i)) [0..<0 + Suc k])),
           [BoardMetadataQuery [bid]] @ map (\<lambda>c. ItemsPageQuery bid page_size c inc)
                (sent_cursors (page_reply remote) 0 None k))"
    by (rule items_loop_pages) (use assms in simp_all)
  then show ?thesis
    using assms(1) by (simp add: fetch_board_def)
qed

text \<open>
  Claim C1. When the metadata phase finds the board, the item-page replies \<open>0, \<dots>, k - 1\<close>
  each carry a board envelope with a non-empty cursor, and reply \<open>k\<close> is the first with
  an empty or absent cursor or without a board envelope, \<open>fetch_board\<close> returns the board
  with the items of the replies \<open>0, \<dots>, k\<close> concatenated in the order received (nothing
  sorted, nothing removed), and it has sent exactly \<open>k + 1\<close> item-page queries, the first
  without a cursor and each later one with the cursor of the reply before it: the loop
  goes on over every continuing reply and stops at the first stopping one.
\<close>

theorem fetch_board_concatenates_pages:
  assumes "metadata_reply remote [bid] = Inr (b # bs)"
    and "\<forall>i<k. page_continues (page_reply remote i)"
    and "page_stops (page_reply remote k)"
  shows "\<exists>out. fetch_board remote page_size bid inc = Some out \<and>
     outcome out = Inr (b\<lparr>board_items :=
        concat (map (\<lambda>i. reply_items (page_reply remote i)) [0..<Suc k])\<rparr>) \<and>
     requests out = BoardMetadataQuery [bid] #
        map (\<lambda>c. ItemsPageQuery bid page_size c inc)
          (sent_cursors (page_reply remote) 0 None k) \<and>
     length (requests out) = Suc (Suc k)"
  using fetch_board_pages[OF assms] by (simp add: length_sent_cursors)

text \<open>
  The example of the specification: the pages \<open>[(items=[i1,i2], cursor="c1"),
  (items=[i3], cursor="")]\<close> give the items \<open>[i1, i2, i3]\<close>, and after the metadata query
  exactly two item-page queries are sent.
\<close>

theorem fetch_board_concatenates_pages_witness:
  "\<exists>out. fetch_board two_page_remote 500 42 False = Some out \<and>
     outcome out = Inr (q1_plan\<lparr>board_items := [i1, i2, i3]\<rparr>) \<and>
     requests out = [BoardMetadataQuery [42], ItemsPageQuery 42 500 None False,
                     ItemsPageQuery 42 500 (Some ''c1'') False] \<and>
     length (requests out) = 3"
proof -
  have m: "metadata_reply two_page_remote [42] = Inr (q1_plan # [])"
    by (simp add: two_page_remote_def)
  have c: "\<forall>i<Suc 0. page_continues (page_reply two_page_remote i)"
    by (simp add: two_page_remote_def two_pages_def page_continues_def envelope_of_def
        envelope_cursor_def cursor_falsy_def)
  have s: "page_stops (page_reply two_page_remote (Suc 0))"
    by (simp add: two_page_remote_def two_pages_def page_stops_def envelope_of_def
        envelope_cursor_def cursor_falsy_def)
  have its: "concat (map (\<lambda>i. reply_items (page_reply two_page_remote i)) [0..<Suc (Suc 0)]) =
      [i1, i2, i3]"
    by (simp add: two_page_remote_def two_pages_def reply_items_def envelope_of_def
        envelope_items_def)
  have cs: "sent_cursors (page_reply two_page_remote) 0 None (Suc 0) = [None, Some ''c1'']"
    by (simp add: two_page_remote_def two_pages_def reply_cursor_def envelope_of_def
        envelope_cursor_def)
  show ?thesis
    using fetch_board_concatenates_pages[OF m c s, of 500 False]
    unfolding its cs by auto
qed

text \<open>
  Claim C4. When the metadata reply holds no board, \<open>fetch_board\<close> fails with the
  "No board found" error, and the metadata query is the only request it has sent: no
  item-page query is issued.
\<close>

theorem fetch_board_no_board:
  assumes "metadata_reply remote [bid] = Inr []"
  shows "fetch_board remote page_size bid inc =
     Some \<lparr>outcome = Inl (NoBoardFound bid), requests = [BoardMetadataQuery [bid]],
           warnings = []\<rparr>"
  using assms by (simp add: fetch_board_def)

theorem fetch_board_no_board_witness:
  "fetch_board no_board_remote 500 42 False =
     Some \<lparr>outcome = Inl (NoBoardFound 42), requests = [BoardMetadataQuery [42]],
           warnings = []\<rparr>"
proof -
  have "metadata_reply no_board_remote [42] = Inr []"
    by (simp add: no_board_remote_def)
  then show ?thesis by (rule fetch_board_no_board)
qed

text \<open>
  Claim C8. When the board is found and every item-page reply up to the one that stops
  the loop yields no item, \<open>fetch_board\<close> does not fail: it returns the board with an
  empty item list, and the condition shows only as the warning.
\<close>

theorem fetch_board_zero_items:
  assumes "metadata_reply remote [bid] = Inr (b # bs)"
    and "\<forall>i<k. page_continues (page_reply remote i)"
    and "page_stops (page_reply remote k)"
    and "\<forall>i\<le>k. reply_items (page_reply remote i) = []"
  shows "\<exists>out. fetch_board remote page_size bid inc = Some out \<and>
     outcome out = Inr (b\<lparr>board_items := []\<rparr>) \<and>
     warnings out = [NoItemsRetrieved bid]"
proof -
  have "concat (map (\<lambda>i. reply_items (page_reply remote i)) [0..<Suc k]) = []"
    using assms(4) by (simp add: less_Suc_eq_le)
  then show ?thesis
    using fetch_board_pages[OF assms(1-3), of page_size inc] by simp
qed

theorem fetch_board_zero_items_witness:
  "\<exists>out. fetch_board empty_remote 500 42 False = Some out \<and>
     outcome out = Inr (q1_plan\<lparr>board_items := []\<rparr>) \<and>
     warnings out = [NoItemsRetrieved 42]"
proof -
  have m: "metadata_reply empty_remote [42] = Inr (q1_plan # [])"
    by (simp add: empty_remote_def)
  have c: "\<forall>i<Suc 0. page_continues (page_reply empty_remote i)"
    by (simp add: empty_remote_def empty_pages_def page_continues_def envelope_of_def
        envelope_cursor_def cursor_falsy_def)
  have s: "page_stops (page_reply empty_remote (Suc 0))"
    by (simp add: empty_remote_def empty_pages_def page_stops_def)
  have e: "\<forall>i\<le>Suc 0. reply_items (page_reply empty_remote i) = []"
    by (simp add: empty_remote_def empty_pages_def reply_items_def envelope_of_def
        envelope_items_def)
  show ?thesis
    by (rule fetch_board_zero_items[OF m c s e])
qed



section \<open>Properties of the cell rendering\<close>






text \<open>
  Whatever the parsers do, a column whose type is none of \<open>date\<close>, \<open>numbers\<close>,
  \<open>numeric\<close>, \<open>checkbox\<close>, \<open>people\<close> gives the display text unmodified with no hint,
  and an absent column value gives the empty string with no hint, for any column type.
\<close>

lemma render_pass_through:
  "(column_type column \<notin> {''date'', ''numbers'', ''numeric'', ''checkbox'', ''people''} \<longrightarrow>
      render_column_value lib column (Some cv) = Inr (Text (cv_text cv), None)) \<and>
   render_column_value lib column None = Inr (Text [], None)"
  by (simp add: render_column_value_def)

lemma deep_payload_not_empty: "deep_payload \<noteq> []"
  by (simp add: deep_payload_def)

text \<open>
  Claim C5 names a defect of the code. \<open>render\<close> is meant never to fail, and the source
  wraps every parser call in \<open>try\<close>/\<open>except\<close>; but the clauses catch \<open>ValueError\<close> and
  \<open>TypeError\<close> only. On a \<open>date\<close> column whose display text makes the free-form parser
  raise \<open>OverflowError\<close>, and on a \<open>checkbox\<close> or \<open>date\<close> column whose payload makes
  \<open>json.loads\<close> raise \<open>RecursionError\<close>, the exception escapes \<open>render\<close> instead of the
  display text being returned.
\<close>

theorem render_lets_parser_exceptions_escape:
  "render_column_value raising_library (column_of_type ''date'')
     (Some (value_of ''99999999999'' None)) = Inl (OtherException ''OverflowError'') \<and>
   render_column_value raising_library (column_of_type ''checkbox'')
     (Some (value_of ''v'' (Some deep_payload))) = Inl (OtherException ''RecursionError'') \<and>
   render_column_value raising_library (column_of_type ''date'')
     (Some (value_of ''2024-01-15'' (Some deep_payload))) = Inl (OtherException ''RecursionError'')"
  using deep_payload_not_empty
  by (simp add: render_column_value_def parse_date_def parse_display_text_def parsed_value_def
      column_of_type_def value_of_def raising_library_def raising_date_parse_def
      raising_json_loads_def example_library_def)

text \<open>
  Claim C6. For a column of type \<open>numbers\<close> or \<open>numeric\<close> and a present column value,
  \<open>render\<close> hands the display text without its commas to the float parser; the parsed
  float is the cell value, and when the parser rejects the text (\<open>ValueError\<close>) the cell
  value is the original display text, commas included, and nothing is raised. No hint in
  either case.
\<close>

theorem render_numeric_column:
  assumes "column_type column = ''numbers'' \<or> column_type column = ''numeric''"
  shows
    "(\<forall>f. float_of_str lib (filter (\<lambda>c. c \<noteq> CHR '','') (cv_text cv)) = Inr f \<longrightarrow>
        render_column_value lib column (Some cv) = Inr (Number f, None)) \<and>
     (float_of_str lib (filter (\<lambda>c. c \<noteq> CHR '','') (cv_text cv)) = Inl ValueError \<longrightarrow>
        render_column_value lib column (Some cv) = Inr (Text (cv_text cv), None))"
  using assms by (auto simp: render_column_value_def remove_commas_def)

text \<open>The examples of the specification: \<open>1,234.50\<close> gives the float 1234.5, \<open>N/A\<close> itself.\<close>

theorem render_numeric_column_witness:
  "render_column_value example_library (column_of_type ''numbers'')
     (Some (value_of ''1,234.50'' None)) = Inr (Number (2469 / 2), None) \<and>
   render_column_value example_library (column_of_type ''numeric'')
     (Some (value_of ''N/A'' None)) = Inr (Text ''N/A'', None)"
proof -
  have t1: "column_type (column_of_type ''numbers'') = ''numbers'' \<or>
      column_type (column_of_type ''numbers'') = ''numeric''"
    by (simp add: column_of_type_def)
  have t2: "column_type (column_of_type ''numeric'') = ''numbers'' \<or>
      column_type (column_of_type ''numeric'') = ''numeric''"
    by (simp add: column_of_type_def)
  show ?thesis
    using render_numeric_column[OF t1, of example_library "value_of ''1,234.50'' None"]
      render_numeric_column[OF t2, of example_library "value_of ''N/A'' None"]
    by (simp add: value_of_def example_library_def example_float_of_str_def)
qed





section \<open>Properties of the workbook\<close>

text \<open>A title without \<open>]\<close> has no match of the pattern: it is only truncated.\<close>

lemma sub_pattern_without_bracket: "CHR '']'' \<notin> set title \<Longrightarrow> sub_pattern title = title"
  by (induction title rule: sub_pattern.induct) auto

lemma length_sanitize_sheet_title: "length (sanitize_sheet_title title) \<le> 31"
  by (simp add: sanitize_sheet_title_def)

text \<open>
  Claim C3 names a defect of the code. The board name \<open>My/Board:Q1\<close> comes out of
  \<open>_sanitize_sheet_title\<close> unchanged, \<open>/\<close> and \<open>:\<close> in place: the pattern replaces an
  illegal character only where \<open>]\<close> follows it. That is the title \<open>build_workbook\<close>
  assigns to the items sheet, and the title setter refuses it: whatever the library,
  \<open>build_workbook\<close> raises \<open>ValueError\<close> on a board of this name.
\<close>

theorem sheet_title_keeps_illegal_characters:
  "sanitize_sheet_title ''My/Board:Q1'' = ''My/Board:Q1'' \<and>
   build_workbook lib now (q1_plan\<lparr>board_name := ''My/Board:Q1''\<rparr>) = Inl ValueError"
proof -
  have s: "sanitize_sheet_title ''My/Board:Q1'' = ''My/Board:Q1''"
    by (simp add: sanitize_sheet_title_def pattern_class_def)
  have "title_setter lib (Some ''Sheet'') [''Sheet''] ''My/Board:Q1'' = Inl ValueError"
    by (simp add: title_setter_def invalid_title_chars_def)
  then show ?thesis
    using s by (simp add: build_workbook_def items_sheet_title_def)
qed

lemma render_columns_length:
  "render_columns lib item row column_formats columns = Inr (row', column_formats') \<Longrightarrow>
   length row' = length row + length columns"
proof (induction columns arbitrary: row column_formats)
  case Nil
  then show ?case by simp
next
  case (Cons column columns)
  from Cons.prems obtain v format_tag fmts where
    "render_columns lib item (row @ [v]) fmts columns = Inr (row', column_formats')"
    by (auto split: sum.splits)
  from Cons.IH[OF this] show ?case by simp
qed

lemma build_item_row_length:
  "build_item_row lib item columns = Inr (row, column_formats) \<Longrightarrow>
   length row = 7 + length columns"
  by (auto simp: build_item_row_def fixed_cells_def dest: render_columns_length)

lemma length_widen_columns: "length (widen_columns lib widths idx cs) = length widths"
  by (induction cs arbitrary: widths idx) simp_all

text \<open>
  The loop over the cells of one row, when the cells from \<open>idx\<close> on fit under the widths:
  the width of every column that has a cell is widened by that cell's display width, once,
  and the other widths stay.
\<close>

lemma widen_columns_nth:
  "idx + length cs \<le> length widths \<Longrightarrow> i < length widths \<Longrightarrow>
   widen_columns lib widths idx cs ! i =
     (if idx \<le> i \<and> i < idx + length cs
      then widen (widths ! i) (calculate_display_width lib (cs ! (i - idx)))
      else widths ! i)"
proof (induction cs arbitrary: widths idx)
  case Nil
  then show ?case by simp
next
  case (Cons c cs)
  let ?ws = "widths[idx := widen (widths ! idx) (calculate_display_width lib c)]"
  have "widen_columns lib widths idx (c # cs) ! i = widen_columns lib ?ws (Suc idx) cs ! i"
    by simp
  also have "\<dots> = (if Suc idx \<le> i \<and> i < Suc idx + length cs
      then widen (?ws ! i) (calculate_display_width lib (cs ! (i - Suc idx)))
      else ?ws ! i)"
    using Cons.prems by (intro Cons.IH) simp_all
  also have "\<dots> = (if idx \<le> i \<and> i < idx + length (c # cs)
      then widen (widths ! i) (calculate_display_width lib ((c # cs) ! (i - idx)))
      else widths ! i)"
  proof (cases "i = idx")
    case True
    with Cons.prems show ?thesis by simp
  next
    case False
    then show ?thesis
      by (cases "idx < i") (auto simp: Suc_diff_Suc nth_Cons')
  qed
  finally show ?case .
qed

lemma append_row_width:
  "length row = length (column_widths sheet) \<Longrightarrow> i < length (column_widths sheet) \<Longrightarrow>
   column_widths (append_row lib sheet row) ! i =
     widen (column_widths sheet ! i) (calculate_display_width lib (row ! i))"
  using widen_columns_nth[of 0 row "column_widths sheet" i lib]
  by (simp add: append_row_def)

text \<open>
  The loop over the items: it adds one row per item, each as long as the header, keeps
  the title and the number of widths, and widens every column by the display widths of
  its cells in the added rows, in the order of the rows.
\<close>

lemma append_items_rows:
  "append_items lib columns sheet items = Inr sheet' \<Longrightarrow>
   \<exists>rows. sheet_rows sheet' = sheet_rows sheet @ rows \<and> length rows = length items \<and>
          (\<forall>r\<in>set rows. length r = 7 + length columns)"
proof (induction items arbitrary: sheet)
  case Nil
  then show ?case by simp
next
  case (Cons item items)
  then obtain row fmts where r: "build_item_row lib item columns = Inr (row, fmts)"
    and rest: "append_items lib columns (append_row lib sheet row) items = Inr sheet'"
    by (auto split: sum.splits)
  from Cons.IH[OF rest] obtain rows where
    "sheet_rows sheet' = sheet_rows (append_row lib sheet row) @ rows"
    "length rows = length items" "\<forall>r\<in>set rows. length r = 7 + length columns"
    by blast
  then have "sheet_rows sheet' = sheet_rows sheet @ (row # rows) \<and>
      length (row # rows) = length (item # items) \<and>
      (\<forall>r\<in>set (row # rows). length r = 7 + length columns)"
    using build_item_row_length[OF r] by (simp add: append_row_def)
  then show ?case by blast
qed

lemma widen_by_step: "widen_by w (d # ds) = widen_by (widen w d) ds"
  by (simp add: widen_def Let_def)

lemma append_items_widths:
  "append_items lib columns sheet items = Inr sheet' \<Longrightarrow>
   length (column_widths sheet) = 7 + length columns \<Longrightarrow> i < 7 + length columns \<Longrightarrow>
   column_widths sheet' ! i =
     widen_by (column_widths sheet ! i) (display_widths lib i (rows_since sheet sheet'))"
proof (induction items arbitrary: sheet)
  case Nil
  then show ?case by (simp add: rows_since_def display_widths_def)
next
  case (Cons item items)
  then obtain row fmts where r: "build_item_row lib item columns = Inr (row, fmts)"
    and rest: "append_items lib columns (append_row lib sheet row) items = Inr sheet'"
    by (auto split: sum.splits)
  let ?next = "append_row lib sheet row"
  have len: "length row = length (column_widths sheet)"
    using build_item_row_length[OF r] Cons.prems(2) by simp
  have len': "length (column_widths ?next) = 7 + length columns"
    using Cons.prems(2) by (simp add: append_row_def length_widen_columns)
  have w: "column_widths ?next ! i =
      widen (column_widths sheet ! i) (calculate_display_width lib (row ! i))"
    using len Cons.prems(2,3) by (intro append_row_width) simp_all
  from append_items_rows[OF rest] obtain rows where
    rows: "sheet_rows sheet' = sheet_rows ?next @ rows"
    by blast
  have since: "rows_since sheet sheet' = row # rows_since ?next sheet'"
    by (simp add: rows_since_def rows append_row_def)
  show ?case
    using Cons.IH[OF rest len' Cons.prems(3)]
    by (simp add: since display_widths_def w widen_by_step del: widen_by.simps(2))
qed

lemma summary_value_counts:
  "summary_value (sheet_rows (populate_summary_sheet now
      \<lparr>sheet_title = t, sheet_rows = [], column_widths = []\<rparr> board)) ''Item Count'' =
     Some (Integer (int (length (board_items board))))"
  "summary_value (sheet_rows (populate_summary_sheet now
      \<lparr>sheet_title = t, sheet_rows = [], column_widths = []\<rparr> board)) ''Group Count'' =
     Some (Integer (int (length (board_groups board))))"
  "summary_value (sheet_rows (populate_summary_sheet now
      \<lparr>sheet_title = t, sheet_rows = [], column_widths = []\<rparr> board)) ''Column Count'' =
     Some (Integer (int (length (board_columns board))))"
  by (simp_all add: populate_summary_sheet_def)

text \<open>
  Claim C9. A workbook that \<open>build_workbook\<close> produces has the items sheet and the
  summary sheet, and the two agree: the summary's \<open>Item Count\<close> is the number of rows of
  the items sheet less its one header row, its \<open>Column Count\<close> is the length of the
  board's column list, which is the number of cells of every row of the items sheet
  beyond the seven fixed ones, and its \<open>Group Count\<close> is the length of the board's group
  list.
\<close>

theorem workbook_counts_agree:
  assumes "build_workbook lib now board = Inr wb"
  shows "\<exists>items_sheet summary_sheet.
     worksheets wb = [items_sheet, summary_sheet] \<and>
     sheet_rows items_sheet \<noteq> [] \<and>
     summary_value (sheet_rows summary_sheet) ''Item Count'' =
       Some (Integer (int (length (sheet_rows items_sheet) - 1))) \<and>
     summary_value (sheet_rows summary_sheet) ''Group Count'' =
       Some (Integer (int (length (board_groups board)))) \<and>
     summary_value (sheet_rows summary_sheet) ''Column Count'' =
       Some (Integer (int (length (board_columns board)))) \<and>
     (\<forall>row\<in>set (sheet_rows items_sheet). length row = 7 + length (board_columns board))"
proof -
  from assms obtain items_title summary_title filled where
    p: "populate_items_sheet lib
          \<lparr>sheet_title = items_title, sheet_rows = [], column_widths = []\<rparr> board = Inr filled"
    and wb: "wb = \<lparr>worksheets = [filled, populate_summary_sheet now
          \<lparr>sheet_title = summary_title, sheet_rows = [], column_widths = []\<rparr> board],
        active = 0\<rparr>"
    by (auto simp: build_workbook_def split: sum.splits)
  let ?start = "\<lparr>sheet_title = items_title, sheet_rows = [],
      column_widths = []\<rparr> :: ('a, 'b) sheet"
  let ?hs = "headers (board_columns board)"
  let ?headed = "?start\<lparr>sheet_rows := sheet_rows ?start @ [map Text ?hs],
      column_widths := header_widths ?hs\<rparr>"
  let ?summary = "populate_summary_sheet now
      \<lparr>sheet_title = summary_title, sheet_rows = [], column_widths = []\<rparr> board"
  from p have
    f: "append_items lib (board_columns board) ?headed (board_items board) = Inr filled"
    by (simp add: populate_items_sheet_def ordered_columns_def Let_def)
  from append_items_rows[OF f] obtain rows where
    rows: "sheet_rows filled = [map Text ?hs] @ rows" "length rows = length (board_items board)"
      "\<forall>r\<in>set rows. length r = 7 + length (board_columns board)"
    by auto
  have h: "length (map Text ?hs :: ('a, 'b) cell list) = 7 + length (board_columns board)"
    by (simp add: headers_def)
  have "worksheets wb = [filled, ?summary]"
    by (simp add: wb)
  moreover have "sheet_rows filled \<noteq> []"
    by (simp add: rows(1))
  moreover have "length (sheet_rows filled) - 1 = length (board_items board)"
    by (simp add: rows(1,2))
  moreover have "\<forall>row\<in>set (sheet_rows filled). length row = 7 + length (board_columns board)"
    using rows(3) h by (simp add: rows(1))
  ultimately show ?thesis
    using summary_value_counts[of now summary_title board] by simp
qed

theorem workbook_counts_agree_witness:
  "\<exists>items_sheet summary_sheet.
     build_workbook example_library 0 wide_board =
       Inr \<lparr>worksheets = [items_sheet, summary_sheet], active = 0\<rparr> \<and>
     length (sheet_rows items_sheet) = 2 \<and>
     summary_value (sheet_rows summary_sheet) ''Item Count'' = Some (Integer 1) \<and>
     summary_value (sheet_rows summary_sheet) ''Group Count'' = Some (Integer 0) \<and>
     summary_value (sheet_rows summary_sheet) ''Column Count'' = Some (Integer 1) \<and>
     (\<forall>row\<in>set (sheet_rows items_sheet). length row = 8)"
proof -
  have "\<not> isl (build_workbook example_library 0 wide_board)"
    by code_simp
  then obtain wb where wb: "build_workbook example_library 0 wide_board = Inr wb"
    by (cases "build_workbook example_library 0 wide_board") auto
  have a: "active wb = 0"
    using wb by (auto simp: build_workbook_def split: sum.splits)
  have n: "length (board_items wide_board) = 1" "length (board_groups wide_board) = 0"
    "length (board_columns wide_board) = 1"
    by (simp_all add: wide_board_def)
  from workbook_counts_agree[OF wb] obtain items_sheet summary_sheet where
    w: "worksheets wb = [items_sheet, summary_sheet]" "sheet_rows items_sheet \<noteq> []"
      "summary_value (sheet_rows summary_sheet) ''Item Count'' =
         Some (Integer (int (length (sheet_rows items_sheet) - 1)))"
      "summary_value (sheet_rows summary_sheet) ''Group Count'' =
         Some (Integer (int (length (board_groups wide_board))))"
      "summary_value (sheet_rows summary_sheet) ''Column Count'' =
         Some (Integer (int (length (board_columns wide_board))))"
      "\<forall>row\<in>set (sheet_rows items_sheet). length row = 7 + length (board_columns wide_board)"
    by blast
  have "map_sum id (\<lambda>wb. length (sheet_rows (hd (worksheets wb))))
      (build_workbook example_library 0 wide_board) = Inr 2"
    by code_simp
  then have two: "length (sheet_rows (hd (worksheets wb))) = 2"
    by (simp add: wb)
  have "wb = \<lparr>worksheets = [items_sheet, summary_sheet], active = 0\<rparr>"
    using w(1) a by simp
  then show ?thesis
    using wb w two n by auto
qed

text \<open>
  How a width moves under the display widths of successive cells: from at most 48 it never
  decreases and stays at most 48; from above 48 it stays as long as no cell is wider, and
  the first wider cell sets it to 48, where it stays.
\<close>

lemma widen_small: "w \<le> 48 \<Longrightarrow> w \<le> widen w d \<and> widen w d \<le> 48"
  by (auto simp: widen_def Let_def)

lemma widen_large: "48 < w \<Longrightarrow> widen w d = (if w < d then 48 else w)"
  by (auto simp: widen_def Let_def)

lemma widen_by_small: "w \<le> 48 \<Longrightarrow> w \<le> widen_by w ds \<and> widen_by w ds \<le> 48"
proof (induction ds arbitrary: w)
  case Nil
  then show ?case by simp
next
  case (Cons d ds)
  from widen_small[OF Cons.prems, of d] have "w \<le> widen w d" "widen w d \<le> 48"
    by simp_all
  with Cons.IH[of "widen w d"] show ?case
    by (auto simp: widen_by_step simp del: widen_by.simps(2))
qed

lemma widen_by_large: "48 < w \<Longrightarrow> widen_by w ds = (if \<exists>d\<in>set ds. w < d then 48 else w)"
proof (induction ds)
  case Nil
  then show ?case by simp
next
  case (Cons d ds)
  show ?case
  proof (cases "w < d")
    case True
    have "widen_by 48 ds = 48"
      using widen_by_small[of 48 ds] by simp
    with True Cons.prems show ?thesis
      by (simp add: widen_large widen_by_step del: widen_by.simps(2))
  next
    case False
    with Cons show ?thesis
      by (simp add: widen_large widen_by_step del: widen_by.simps(2))
  qed
qed

text \<open>
  Claim C10, as amended. The header loop gives column \<open>i\<close> the width
  \<open>max(len(title), 12)\<close>, with no cap. From any state of the sheet on, appending item rows
  moves the width of column \<open>i\<close> by the display widths of the column's cells in these
  rows, in the order of the rows, each cell wider than the width so far setting it to
  \<open>min(display width, 48)\<close>. So a width of at most 48 never decreases and stays at most 48;
  a width above 48, which only a header longer than 48 characters gives, is kept while no
  item cell of the column is wider than it, and the first wider cell sets it to 48, where
  it stays. The finished items sheet has in column \<open>i\<close> the width so reached from the
  header's width over all item rows.
\<close>

theorem column_widths_while_appending:
  assumes "i < 7 + length columns"
  shows
    "(\<forall>sheet items sheet'.
        append_items lib columns sheet items = Inr sheet' \<and>
        length (column_widths sheet) = 7 + length columns \<longrightarrow>
        column_widths sheet' ! i =
          widen_by (column_widths sheet ! i) (display_widths lib i (rows_since sheet sheet')) \<and>
        (column_widths sheet ! i \<le> 48 \<longrightarrow>
           column_widths sheet ! i \<le> column_widths sheet' ! i \<and> column_widths sheet' ! i \<le> 48) \<and>
        (48 < column_widths sheet ! i \<longrightarrow>
           column_widths sheet' ! i =
             (if \<exists>d\<in>set (display_widths lib i (rows_since sheet sheet')).
                   column_widths sheet ! i < d
              then 48 else column_widths sheet ! i))) \<and>
     (\<forall>board sheet sheet'.
        board_columns board = columns \<and> populate_items_sheet lib sheet board = Inr sheet' \<longrightarrow>
        column_widths sheet' ! i =
          widen_by (max (length (headers columns ! i)) 12)
            (display_widths lib i (drop 1 (rows_since sheet sheet'))))"
proof -
  have a: "column_widths sheet' ! i =
        widen_by (column_widths sheet ! i) (display_widths lib i (rows_since sheet sheet')) \<and>
      (column_widths sheet ! i \<le> 48 \<longrightarrow>
         column_widths sheet ! i \<le> column_widths sheet' ! i \<and> column_widths sheet' ! i \<le> 48) \<and>
      (48 < column_widths sheet ! i \<longrightarrow>
         column_widths sheet' ! i =
           (if \<exists>d\<in>set (display_widths lib i (rows_since sheet sheet')).
                 column_widths sheet ! i < d
            then 48 else column_widths sheet ! i))"
    if "append_items lib columns sheet items = Inr sheet'"
      "length (column_widths sheet) = 7 + length columns"
    for sheet items sheet'
  proof -
    have e: "column_widths sheet' ! i =
        widen_by (column_widths sheet ! i) (display_widths lib i (rows_since sheet sheet'))"
      using that assms by (rule append_items_widths)
    show ?thesis
      unfolding e
      using widen_by_small[of "column_widths sheet ! i"] widen_by_large[of "column_widths sheet ! i"]
      by simp
  qed
  have b: "column_widths sheet' ! i =
        widen_by (max (length (headers columns ! i)) 12)
          (display_widths lib i (drop 1 (rows_since sheet sheet')))"
    if "board_columns board = columns" "populate_items_sheet lib sheet board = Inr sheet'"
    for board sheet sheet'
  proof -
    let ?hs = "headers columns"
    let ?headed = "sheet\<lparr>sheet_rows := sheet_rows sheet @ [map Text ?hs],
        column_widths := header_widths ?hs\<rparr>"
    have f: "append_items lib columns ?headed (board_items board) = Inr sheet'"
      using that by (simp add: populate_items_sheet_def ordered_columns_def Let_def)
    have l: "length (column_widths ?headed) = 7 + length columns"
      by (simp add: header_widths_def headers_def)
    have li: "i < length ?hs"
      using assms by (simp add: headers_def)
    have h: "column_widths ?headed ! i = max (length (?hs ! i)) 12"
      using li by (simp add: header_widths_def)
    from append_items_rows[OF f] obtain rows where
      rows: "sheet_rows sheet' = sheet_rows ?headed @ rows"
      by blast
    have r: "rows_since ?headed sheet' = drop 1 (rows_since sheet sheet')"
      by (simp add: rows_since_def rows)
    show ?thesis
      using append_items_widths[OF f l assms] by (simp only: h r)
  qed
  show ?thesis
    using a b by blast
qed

text \<open>
  The board with a header of 60 characters and one item whose cell under it has 70
  characters, display width 72: the header gives the width 60, and the one cell, wider
  than that, sets it to 48.
\<close>

theorem column_widths_while_appending_witness:
  "\<exists>sheet'. populate_items_sheet example_library blank_sheet wide_board = Inr sheet' \<and>
     max (length (headers [wide_column] ! 7)) 12 = 60 \<and>
     display_widths example_library 7 (drop 1 (rows_since blank_sheet sheet')) = [72] \<and>
     column_widths sheet' ! 7 = 48"
proof -
  let ?cols = "[wide_column]"
  let ?headed = "blank_sheet\<lparr>sheet_rows := sheet_rows blank_sheet @ [map Text (headers ?cols)],
      column_widths := header_widths (headers ?cols)\<rparr>"
  have i: "7 < 7 + length ?cols"
    by simp
  note widths = column_widths_while_appending[OF i, of example_library]
  have "\<not> isl (populate_items_sheet example_library blank_sheet wide_board)"
    by code_simp
  then obtain sheet' where
    p: "populate_items_sheet example_library blank_sheet wide_board = Inr sheet'"
    by (cases "populate_items_sheet example_library blank_sheet wide_board") auto
  have c: "board_columns wide_board = ?cols"
    by (simp add: wide_board_def)
  have h: "max (length (headers ?cols ! 7)) 12 = 60"
    by (simp add: headers_def wide_column_def long_title_def)
  have "map_sum id (\<lambda>s. display_widths example_library 7 (drop 1 (rows_since blank_sheet s)))
      (populate_items_sheet example_library blank_sheet wide_board) = Inr [72]"
    by code_simp
  then have d: "display_widths example_library 7 (drop 1 (rows_since blank_sheet sheet')) = [72]"
    by (simp add: p)
  from widths c p have whole: "column_widths sheet' ! 7 =
      widen_by (max (length (headers ?cols ! 7)) 12)
        (display_widths example_library 7 (drop 1 (rows_since blank_sheet sheet')))"
    by blast
  have f: "append_items example_library ?cols ?headed (board_items wide_board) = Inr sheet'"
    using p c by (simp add: populate_items_sheet_def ordered_columns_def Let_def)
  have l: "length (column_widths ?headed) = 7 + length ?cols"
    by (simp add: header_widths_def headers_def)
  have w0: "column_widths ?headed ! 7 = 60"
    by (simp add: header_widths_def headers_def wide_column_def long_title_def)
  have r: "rows_since ?headed sheet' = drop 1 (rows_since blank_sheet sheet')"
    by (simp add: rows_since_def blank_sheet_def)
  from widths f l have "48 < column_widths ?headed ! 7 \<longrightarrow>
      column_widths sheet' ! 7 =
        (if \<exists>d\<in>set (display_widths example_library 7 (rows_since ?headed sheet')).
              column_widths ?headed ! 7 < d
         then 48 else column_widths ?headed ! 7)"
    by blast
  then have stretch: "column_widths sheet' ! 7 = 48"
    unfolding w0 r d by simp
  have "widen_by 60 [72] = 48"
    by simp
  with whole h d have "column_widths sheet' ! 7 = 48"
    by simp
  with p h d stretch show ?thesis
    by blast
qed

text \<open>
  Claim C10 as stated fails: the header of 60 characters sets the width 60, and the cell
  of 70 characters in the first item row, wider than that, sets it to 48. The width has
  decreased, and the final width under a header longer than 48 characters is not above
  the cap.
\<close>

theorem column_width_decreases_counterexample:
  "map_sum id column_widths
     (populate_items_sheet example_library blank_sheet (wide_board\<lparr>board_items := []\<rparr>)) =
     Inr [12, 12, 12, 12, 12, 12, 12, 60] \<and>
   map_sum id column_widths (populate_items_sheet example_library blank_sheet wide_board) =
     Inr [12, 12, 12, 12, 12, 12, 12, 48]"
  by code_simp

end
